theory Spec2Isabelle
  imports Main "HOL-Library.Word" "HOL-Library.Monad_Syntax"
begin

unbundle bit_operations_syntax

section \<open>The Intel 8080 emulator \<open>intel8080\<close>: data model\<close>

text \<open>
  The embedding follows \<open>intel8080.cpp\<close> together with the header whose identifiers it
  uses (\<open>union reg\<close>, \<open>enum flag\<close>, \<open>class cpu\<close>).

  \<^item> \<open>std::uint8_t\<close> is \<open>8 word\<close>, \<open>std::uint16_t\<close> is \<open>16 word\<close>; where C++ promotes
    to \<open>int\<close> before comparing (\<open>updateCarryFlag\<close>, \<open>updateAuxCarryFlag\<close>, \<open>dad\<close>) the
    comparison is made on \<open>uint\<close>/\<open>unat\<close> values, so nothing wraps there.
  \<^item> The union \<open>reg\<close> overlays \<open>pair[2]\<close> and \<open>full\<close>. The host is taken to be
    little-endian (the emulator is built with GCC extensions for x86):
    \<open>full = pair[0] + 256 * pair[1]\<close>. The same reading is used for the pointer casts
    \<open>*(std::uint16_t*)(ram + PC)\<close> and \<open>*(std::uint16_t*)(ram + SP)\<close>.
  \<^item> \<open>ram\<close> points to 65536 bytes. A byte access \<open>ram[a]\<close> with a 16-bit \<open>a\<close> is always
    inside; a 16-bit access at address \<open>0xFFFF\<close> touches \<open>ram[0x10000]\<close>, outside the
    array. The model returns \<open>None\<close> there: the program has no defined behaviour.
  \<^item> The port handlers are host functions: the input handler is a parameter \<open>pin\<close> of
    \<open>exec\<close> and \<open>step\<close>, the bytes sent to the output handler are appended to
    \<open>outputs\<close>.
\<close>

record reg =
  pair0 :: "8 word"
  pair1 :: "8 word"

definition full :: "reg \<Rightarrow> 16 word" where
  "full r = ucast (pair0 r) OR push_bit 8 (ucast (pair1 r))"

definition set_full :: "16 word \<Rightarrow> reg" where
  "set_full w = \<lparr>pair0 = ucast w, pair1 = ucast (drop_bit 8 w)\<rparr>"

text \<open>\<open>reg::high\<close> returns \<open>pair[0]\<close> and \<open>reg::low\<close> returns \<open>pair[1]\<close>.\<close>

definition high :: "reg \<Rightarrow> 8 word" where
  "high r = pair0 r"

definition low :: "reg \<Rightarrow> 8 word" where
  "low r = pair1 r"

record cpu =
  SP :: "16 word"
  PC :: "16 word"
  ram :: "16 word \<Rightarrow> 8 word"
  PSW_reg :: reg
  BC_reg :: reg
  DE_reg :: reg
  HL_reg :: reg
  interruptsEnabled :: bool
  interruptPending :: bool
  interruptVector :: "8 word"
  halted :: bool
  outputs :: "(8 word \<times> 8 word) list"

text \<open>\<open>enum flag\<close>: bit positions in the flag byte. The source also casts the plain
  numbers 1, 3 and 5 to \<open>flag\<close>, so a flag is its position.\<close>

type_synonym flag = nat

definition sign :: flag where "sign = 7"
definition zero :: flag where "zero = 6"
definition auxCarry :: flag where "auxCarry = 4"
definition parity :: flag where "parity = 2"
definition carry :: flag where "carry = 0"

subsection \<open>Register accessors\<close>

definition PSW :: "cpu \<Rightarrow> 16 word" where "PSW s = full (PSW_reg s)"
definition BC :: "cpu \<Rightarrow> 16 word" where "BC s = full (BC_reg s)"
definition DE :: "cpu \<Rightarrow> 16 word" where "DE s = full (DE_reg s)"
definition HL :: "cpu \<Rightarrow> 16 word" where "HL s = full (HL_reg s)"

definition A :: "cpu \<Rightarrow> 8 word" where "A s = high (PSW_reg s)"
definition flags :: "cpu \<Rightarrow> 8 word" where "flags s = low (PSW_reg s)"
definition B :: "cpu \<Rightarrow> 8 word" where "B s = high (BC_reg s)"
definition C :: "cpu \<Rightarrow> 8 word" where "C s = low (BC_reg s)"
definition D :: "cpu \<Rightarrow> 8 word" where "D s = high (DE_reg s)"
definition E :: "cpu \<Rightarrow> 8 word" where "E s = low (DE_reg s)"
definition H :: "cpu \<Rightarrow> 8 word" where "H s = high (HL_reg s)"
definition L :: "cpu \<Rightarrow> 8 word" where "L s = low (HL_reg s)"
definition atHL :: "cpu \<Rightarrow> 8 word" where "atHL s = ram s (HL s)"

text \<open>The accessors return references. A write through \<open>PSW()\<close>, \<open>BC()\<close>, \<open>DE()\<close>,
  \<open>HL()\<close> replaces both bytes of the pair.\<close>

definition set_PSW :: "16 word \<Rightarrow> cpu \<Rightarrow> cpu" where "set_PSW w s = s\<lparr>PSW_reg := set_full w\<rparr>"
definition set_BC :: "16 word \<Rightarrow> cpu \<Rightarrow> cpu" where "set_BC w s = s\<lparr>BC_reg := set_full w\<rparr>"
definition set_DE :: "16 word \<Rightarrow> cpu \<Rightarrow> cpu" where "set_DE w s = s\<lparr>DE_reg := set_full w\<rparr>"
definition set_HL :: "16 word \<Rightarrow> cpu \<Rightarrow> cpu" where "set_HL w s = s\<lparr>HL_reg := set_full w\<rparr>"

definition set_flags :: "8 word \<Rightarrow> cpu \<Rightarrow> cpu" where
  "set_flags v s = s\<lparr>PSW_reg := (PSW_reg s)\<lparr>pair1 := v\<rparr>\<rparr>"

text \<open>A \<open>std::uint8_t&\<close> obtained from \<open>B()\<close>, \<open>C()\<close>, \<open>D()\<close>, \<open>E()\<close>, \<open>H()\<close>, \<open>L()\<close>,
  \<open>atHL()\<close> or \<open>A()\<close>, and a \<open>std::uint16_t&\<close> passed to \<open>pop\<close>.\<close>

datatype ref8 = refB | refC | refD | refE | refH | refL | refatHL | refA

fun rd :: "ref8 \<Rightarrow> cpu \<Rightarrow> 8 word" where
  "rd refB s = B s"
| "rd refC s = C s"
| "rd refD s = D s"
| "rd refE s = E s"
| "rd refH s = H s"
| "rd refL s = L s"
| "rd refatHL s = atHL s"
| "rd refA s = A s"

fun wr :: "ref8 \<Rightarrow> 8 word \<Rightarrow> cpu \<Rightarrow> cpu" where
  "wr refB v s = s\<lparr>BC_reg := (BC_reg s)\<lparr>pair0 := v\<rparr>\<rparr>"
| "wr refC v s = s\<lparr>BC_reg := (BC_reg s)\<lparr>pair1 := v\<rparr>\<rparr>"
| "wr refD v s = s\<lparr>DE_reg := (DE_reg s)\<lparr>pair0 := v\<rparr>\<rparr>"
| "wr refE v s = s\<lparr>DE_reg := (DE_reg s)\<lparr>pair1 := v\<rparr>\<rparr>"
| "wr refH v s = s\<lparr>HL_reg := (HL_reg s)\<lparr>pair0 := v\<rparr>\<rparr>"
| "wr refL v s = s\<lparr>HL_reg := (HL_reg s)\<lparr>pair1 := v\<rparr>\<rparr>"
| "wr refatHL v s = s\<lparr>ram := (ram s)(HL s := v)\<rparr>"
| "wr refA v s = s\<lparr>PSW_reg := (PSW_reg s)\<lparr>pair0 := v\<rparr>\<rparr>"

datatype ref16 = refPSW | refBC | refDE | refHL | refPC

fun wr16 :: "ref16 \<Rightarrow> 16 word \<Rightarrow> cpu \<Rightarrow> cpu" where
  "wr16 refPSW w s = set_PSW w s"
| "wr16 refBC w s = set_BC w s"
| "wr16 refDE w s = set_DE w s"
| "wr16 refHL w s = set_HL w s"
| "wr16 refPC w s = s\<lparr>PC := w\<rparr>"

subsection \<open>Memory\<close>

text \<open>\<open>*(std::uint16_t*)(ram + a)\<close>, read and written.\<close>

definition read16 :: "16 word \<Rightarrow> cpu \<Rightarrow> 16 word option" where
  "read16 a s =
     (if a = 0xFFFF then None
      else Some (ucast (ram s a) OR push_bit 8 (ucast (ram s (a + 1)))))"

definition write16 :: "16 word \<Rightarrow> 16 word \<Rightarrow> cpu \<Rightarrow> cpu option" where
  "write16 a w s =
     (if a = 0xFFFF then None
      else Some (s\<lparr>ram := (ram s)(a := ucast w, a + 1 := ucast (drop_bit 8 w))\<rparr>))"

definition atSP :: "cpu \<Rightarrow> 16 word option" where
  "atSP s = read16 (SP s) s"

definition set_atSP :: "16 word \<Rightarrow> cpu \<Rightarrow> cpu option" where
  "set_atSP w s = write16 (SP s) w s"

definition get8 :: "cpu \<Rightarrow> 8 word \<times> cpu" where
  "get8 s = (ram s (PC s), s\<lparr>PC := PC s + 1\<rparr>)"

definition get16 :: "cpu \<Rightarrow> (16 word \<times> cpu) option" where
  "get16 s = do { copy \<leftarrow> read16 (PC s) s; Some (copy, s\<lparr>PC := PC s + 2\<rparr>) }"

text \<open>\<open>cpu::load\<close>: \<open>ram[orig + i] = byte\<close> for the bytes in order; \<open>orig\<close> is a
  \<open>std::size_t\<close>, so nothing wraps and a byte past the end is outside the array.\<close>

fun load :: "nat \<Rightarrow> 8 word list \<Rightarrow> cpu \<Rightarrow> cpu option" where
  "load orig [] s = Some s"
| "load orig (byte # code) s =
     (if orig < 65536 then load (orig + 1) code (s\<lparr>ram := (ram s)(of_nat orig := byte)\<rparr>)
      else None)"

subsection \<open>Bit helpers of the header\<close>

definition lowBitsOf :: "'a::len word \<Rightarrow> nat \<Rightarrow> 'a word" where
  "lowBitsOf n numBits = of_nat (unat n mod 2 ^ numBits)"

definition highBitsOf :: "'a::len word \<Rightarrow> nat \<Rightarrow> 'a word" where
  "highBitsOf n numBits = of_nat (unat n div 2 ^ (LENGTH('a) - numBits))"

definition twosComp :: "'a::len word \<Rightarrow> 'a word" where
  "twosComp n = NOT n + 1"

definition swapBytes :: "16 word \<Rightarrow> 16 word" where
  "swapBytes n = highBitsOf n 8 + lowBitsOf n 8 * 256"

text \<open>GCC's \<open>__builtin_parity\<close> on the value promoted to \<open>unsigned int\<close>: the number of
  one bits modulo 2.\<close>

fun popcount :: "nat \<Rightarrow> nat" where
  "popcount n = (if n = 0 then 0 else n mod 2 + popcount (n div 2))"

definition builtin_parity :: "32 word \<Rightarrow> int" where
  "builtin_parity x = int (popcount (unat x)) mod 2"

subsection \<open>Flags\<close>

definition getFlag :: "flag \<Rightarrow> cpu \<Rightarrow> int" where
  "getFlag f s = uint (drop_bit f (flags s)) mod 2"

definition setFlag :: "flag \<Rightarrow> bool \<Rightarrow> cpu \<Rightarrow> cpu" where
  "setFlag f condition s =
     (if condition then set_flags (flags s OR push_bit f 1) s
      else set_flags (flags s AND NOT (push_bit f 1)) s)"

definition updateFlags :: "8 word \<Rightarrow> cpu \<Rightarrow> cpu" where
  "updateFlags result s =
     (let s1 = setFlag sign (sint result < 0) s;
          s2 = setFlag zero (result = 0) s1
      in setFlag parity (builtin_parity (ucast result) = 0) s2)"

definition updateCarryFlag :: "8 word \<Rightarrow> 8 word \<Rightarrow> cpu \<Rightarrow> cpu" where
  "updateCarryFlag a b s = setFlag carry (uint b > 255 - uint a) s"

definition updateAuxCarryFlag :: "8 word \<Rightarrow> 8 word \<Rightarrow> cpu \<Rightarrow> cpu" where
  "updateAuxCarryFlag a b s =
     setFlag auxCarry (uint (lowBitsOf b 4) + uint (lowBitsOf a 4) > 15) s"

subsection \<open>Instruction kernels\<close>

text \<open>\<open>inr\<close> and \<open>dcr\<close> take a \<open>std::uint8_t&\<close>: the flag is set from the old value,
  the operand is changed in place, and \<open>updateFlags\<close> sees the new value.\<close>

definition inr :: "ref8 \<Rightarrow> cpu \<Rightarrow> cpu" where
  "inr r8 s =
     (let s1 = setFlag auxCarry (lowBitsOf (rd r8 s) 4 = 15) s;
          s2 = wr r8 (rd r8 s1 + 1) s1
      in updateFlags (rd r8 s2) s2)"

definition dcr :: "ref8 \<Rightarrow> cpu \<Rightarrow> cpu" where
  "dcr r8 s =
     (let s1 = setFlag auxCarry (lowBitsOf (rd r8 s) 4 = 0) s;
          s2 = wr r8 (rd r8 s1 - 1) s1
      in updateFlags (rd r8 s2) s2)"

definition dad :: "16 word \<Rightarrow> cpu \<Rightarrow> cpu" where
  "dad r16 s =
     (let s1 = setFlag carry (uint r16 > 65535 - uint (HL s)) s
      in set_HL (HL s1 + r16) s1)"

definition add :: "8 word \<Rightarrow> bool \<Rightarrow> cpu \<Rightarrow> cpu" where
  "add r8 withCarry s =
     (let added = (if withCarry \<and> getFlag carry s \<noteq> 0 then r8 + 1 else r8);
          s1 = updateCarryFlag (A s) added s;
          s2 = updateAuxCarryFlag (A s1) added s1;
          s3 = wr refA (A s2 + added) s2
      in updateFlags (A s3) s3)"

definition sub :: "8 word \<Rightarrow> bool \<Rightarrow> cpu \<Rightarrow> cpu" where
  "sub r8 withBorrow s = add (twosComp r8) withBorrow s"

definition cmp :: "8 word \<Rightarrow> cpu \<Rightarrow> cpu" where
  "cmp r8 s =
     (let copyA = A s;
          s1 = sub r8 False s;
          s2 = setFlag carry (getFlag carry s1 = 0) s1
      in wr refA copyA s2)"

definition logicAnd :: "8 word \<Rightarrow> cpu \<Rightarrow> cpu" where
  "logicAnd r8 s =
     (let s1 = wr refA (A s AND r8) s; s2 = updateFlags (A s1) s1
      in setFlag carry False s2)"

definition logicOr :: "8 word \<Rightarrow> cpu \<Rightarrow> cpu" where
  "logicOr r8 s =
     (let s1 = wr refA (A s OR r8) s; s2 = updateFlags (A s1) s1
      in setFlag carry False s2)"

definition logicXor :: "8 word \<Rightarrow> cpu \<Rightarrow> cpu" where
  "logicXor r8 s =
     (let s1 = wr refA (A s XOR r8) s; s2 = updateFlags (A s1) s1
      in setFlag carry False s2)"

definition push :: "16 word \<Rightarrow> cpu \<Rightarrow> cpu option" where
  "push r16 s = set_atSP (swapBytes r16) (s\<lparr>SP := SP s - 2\<rparr>)"

definition pop :: "ref16 \<Rightarrow> cpu \<Rightarrow> cpu option" where
  "pop r16 s =
     do { w \<leftarrow> atSP s;
          let s1 = wr16 r16 (swapBytes w) s;
              s2 = s1\<lparr>SP := SP s1 + 2\<rparr>;
              s3 = setFlag 5 False s2;
              s4 = setFlag 3 False s3
          in Some (setFlag 1 True s4) }"

definition rst :: "8 word \<Rightarrow> cpu \<Rightarrow> cpu option" where
  "rst which s = do { s1 \<leftarrow> push (PC s) s; Some (s1\<lparr>PC := 8 * ucast which\<rparr>) }"

definition jmp :: "bool \<Rightarrow> cpu \<Rightarrow> cpu option" where
  "jmp condition s =
     (if condition then do { (w, s1) \<leftarrow> get16 s; Some (s1\<lparr>PC := w\<rparr>) }
      else Some s)"

definition ret :: "bool \<Rightarrow> cpu \<Rightarrow> cpu option" where
  "ret condition s = (if condition then pop refPC s else Some s)"

definition call :: "bool \<Rightarrow> cpu \<Rightarrow> cpu option" where
  "call condition s =
     (if condition
      then do { s1 \<leftarrow> push (PC s) s; (w, s2) \<leftarrow> get16 s1; Some (s2\<lparr>PC := w\<rparr>) }
      else Some s)"

subsection \<open>Dispatch\<close>

text \<open>\<open>cpu::exec\<close>: the \<open>switch\<close>, case by case in the order of the source. The switch
  has no \<open>default\<close> and no case for \<open>0xcb\<close>, which therefore does nothing.\<close>

definition exec :: "(8 word \<Rightarrow> 8 word) \<Rightarrow> 8 word \<Rightarrow> cpu \<Rightarrow> cpu option" where
  "exec pin instr s =
     (
      if instr = 0x00 \<or> instr = 0x08 \<or> instr = 0x10 \<or> instr = 0x18 \<or>
         instr = 0x20 \<or> instr = 0x28 \<or> instr = 0x30 \<or> instr = 0x38 then Some s
      else if instr = 0x01 then do { (w, s1) \<leftarrow> get16 s; Some (set_BC w s1) }
      else if instr = 0x11 then do { (w, s1) \<leftarrow> get16 s; Some (set_DE w s1) }
      else if instr = 0x21 then do { (w, s1) \<leftarrow> get16 s; Some (set_HL w s1) }
      else if instr = 0x31 then do { (w, s1) \<leftarrow> get16 s; Some (s1\<lparr>SP := w\<rparr>) }
      else if instr = 0x02 then Some (s\<lparr>ram := (ram s)(BC s := A s)\<rparr>)
      else if instr = 0x12 then Some (s\<lparr>ram := (ram s)(DE s := A s)\<rparr>)
      else if instr = 0x0a then Some (wr refA (ram s (BC s)) s)
      else if instr = 0x1a then Some (wr refA (ram s (DE s)) s)
      else if instr = 0x22 then do { (a, s1) \<leftarrow> get16 s; Some (s1\<lparr>ram := (ram s1)(a := ucast (HL s1))\<rparr>) }
      else if instr = 0x2a then do { (a, s1) \<leftarrow> get16 s; Some (set_HL (ucast (ram s1 a)) s1) }
      else if instr = 0x32 then do { (a, s1) \<leftarrow> get16 s; Some (s1\<lparr>ram := (ram s1)(a := A s1)\<rparr>) }
      else if instr = 0x3a then do { (a, s1) \<leftarrow> get16 s; Some (wr refA (ram s1 a) s1) }
      else if instr = 0x03 then Some (set_BC (BC s + 1) s)
      else if instr = 0x13 then Some (set_DE (DE s + 1) s)
      else if instr = 0x23 then Some (set_HL (HL s + 1) s)
      else if instr = 0x33 then Some (s\<lparr>SP := SP s + 1\<rparr>)
      else if instr = 0x0b then Some (set_BC (BC s - 1) s)
      else if instr = 0x1b then Some (set_DE (DE s - 1) s)
      else if instr = 0x2b then Some (set_HL (HL s - 1) s)
      else if instr = 0x3b then Some (s\<lparr>SP := SP s - 1\<rparr>)
      else if instr = 0x04 then Some (inr refB s)
      else if instr = 0x0c then Some (inr refC s)
      else if instr = 0x14 then Some (inr refD s)
      else if instr = 0x1c then Some (inr refE s)
      else if instr = 0x24 then Some (inr refH s)
      else if instr = 0x2c then Some (inr refL s)
      else if instr = 0x34 then Some (inr refatHL s)
      else if instr = 0x3c then Some (inr refA s)
      else if instr = 0x05 then Some (dcr refB s)
      else if instr = 0x0d then Some (dcr refC s)
      else if instr = 0x15 then Some (dcr refD s)
      else if instr = 0x1d then Some (dcr refE s)
      else if instr = 0x25 then Some (dcr refH s)
      else if instr = 0x2d then Some (dcr refL s)
      else if instr = 0x35 then Some (dcr refatHL s)
      else if instr = 0x3d then Some (dcr refA s)
      else if instr = 0x06 then (let (v, s1) = get8 s in Some (wr refB v s1))
      else if instr = 0x0e then (let (v, s1) = get8 s in Some (wr refC v s1))
      else if instr = 0x16 then (let (v, s1) = get8 s in Some (wr refD v s1))
      else if instr = 0x1e then (let (v, s1) = get8 s in Some (wr refE v s1))
      else if instr = 0x26 then (let (v, s1) = get8 s in Some (wr refH v s1))
      else if instr = 0x2e then (let (v, s1) = get8 s in Some (wr refL v s1))
      else if instr = 0x36 then (let (v, s1) = get8 s in Some (wr refatHL v s1))
      else if instr = 0x3e then (let (v, s1) = get8 s in Some (wr refA v s1))
      else if instr = 0x07 then (let temp = (ucast (highBitsOf (A s) 1) :: 16 word);
            s1 = setFlag carry (temp \<noteq> 0) s;
            s2 = wr refA (push_bit 1 (A s1)) s1
        in Some (wr refA (A s2 + ucast temp) s2))
      else if instr = 0x0f then (let temp = (ucast (lowBitsOf (A s) 1) :: 16 word);
            s1 = setFlag carry (temp \<noteq> 0) s;
            s2 = wr refA (drop_bit 1 (A s1)) s1
        in Some (wr refA (A s2 + 128 * ucast temp) s2))
      else if instr = 0x17 then (let s1 = setFlag carry (highBitsOf (A s) 1 \<noteq> 0) s
        in Some (wr refA (push_bit 1 (A s1)) s1))
      else if instr = 0x1f then (let s1 = setFlag carry (lowBitsOf (A s) 1 \<noteq> 0) s
        in Some (wr refA (drop_bit 1 (A s1)) s1))
      else if instr = 0x27 then (let s1 = (if getFlag auxCarry s \<noteq> 0 \<or> lowBitsOf (A s) 4 > 9
                  then setFlag auxCarry True (wr refA (A s + 6) s) else s);
            s2 = (if getFlag carry s1 \<noteq> 0 \<or> highBitsOf (A s1) 4 > 9
                  then setFlag carry True (wr refA (A s1 + 96) s1) else s1)
        in Some (updateFlags (A s2) s2))
      else if instr = 0x37 then Some (setFlag carry True s)
      else if instr = 0x2f then Some (wr refA (NOT (A s)) s)
      else if instr = 0x3f then Some (setFlag carry (getFlag carry s = 0) s)
      else if instr = 0x09 then Some (dad (BC s) s)
      else if instr = 0x19 then Some (dad (DE s) s)
      else if instr = 0x29 then Some (dad (HL s) s)
      else if instr = 0x39 then Some (dad (SP s) s)
      else if instr = 0x40 then Some (wr refB (B s) s)
      else if instr = 0x41 then Some (wr refB (C s) s)
      else if instr = 0x42 then Some (wr refB (D s) s)
      else if instr = 0x43 then Some (wr refB (E s) s)
      else if instr = 0x44 then Some (wr refB (H s) s)
      else if instr = 0x45 then Some (wr refB (L s) s)
      else if instr = 0x46 then Some (wr refB (atHL s) s)
      else if instr = 0x47 then Some (wr refB (A s) s)
      else if instr = 0x48 then Some (wr refC (B s) s)
      else if instr = 0x49 then Some (wr refC (C s) s)
      else if instr = 0x4a then Some (wr refC (D s) s)
      else if instr = 0x4b then Some (wr refC (E s) s)
      else if instr = 0x4c then Some (wr refC (H s) s)
      else if instr = 0x4d then Some (wr refC (L s) s)
      else if instr = 0x4e then Some (wr refC (atHL s) s)
      else if instr = 0x4f then Some (wr refC (A s) s)
      else if instr = 0x50 then Some (wr refD (B s) s)
      else if instr = 0x51 then Some (wr refD (C s) s)
      else if instr = 0x52 then Some (wr refD (D s) s)
      else if instr = 0x53 then Some (wr refD (E s) s)
      else if instr = 0x54 then Some (wr refD (H s) s)
      else if instr = 0x55 then Some (wr refD (L s) s)
      else if instr = 0x56 then Some (wr refD (atHL s) s)
      else if instr = 0x57 then Some (wr refD (A s) s)
      else if instr = 0x58 then Some (wr refE (B s) s)
      else if instr = 0x59 then Some (wr refE (C s) s)
      else if instr = 0x5a then Some (wr refE (D s) s)
      else if instr = 0x5b then Some (wr refE (E s) s)
      else if instr = 0x5c then Some (wr refE (H s) s)
      else if instr = 0x5d then Some (wr refE (L s) s)
      else if instr = 0x5e then Some (wr refE (atHL s) s)
      else if instr = 0x5f then Some (wr refE (A s) s)
      else if instr = 0x60 then Some (wr refH (B s) s)
      else if instr = 0x61 then Some (wr refH (C s) s)
      else if instr = 0x62 then Some (wr refH (D s) s)
      else if instr = 0x63 then Some (wr refH (E s) s)
      else if instr = 0x64 then Some (wr refH (H s) s)
      else if instr = 0x65 then Some (wr refH (L s) s)
      else if instr = 0x66 then Some (wr refH (atHL s) s)
      else if instr = 0x67 then Some (wr refH (A s) s)
      else if instr = 0x68 then Some (wr refL (B s) s)
      else if instr = 0x69 then Some (wr refL (C s) s)
      else if instr = 0x6a then Some (wr refL (D s) s)
      else if instr = 0x6b then Some (wr refL (E s) s)
      else if instr = 0x6c then Some (wr refL (H s) s)
      else if instr = 0x6d then Some (wr refL (L s) s)
      else if instr = 0x6e then Some (wr refL (atHL s) s)
      else if instr = 0x6f then Some (wr refL (A s) s)
      else if instr = 0x70 then Some (wr refatHL (B s) s)
      else if instr = 0x71 then Some (wr refatHL (C s) s)
      else if instr = 0x72 then Some (wr refatHL (D s) s)
      else if instr = 0x73 then Some (wr refatHL (E s) s)
      else if instr = 0x74 then Some (wr refatHL (H s) s)
      else if instr = 0x75 then Some (wr refatHL (L s) s)
      else if instr = 0x77 then Some (wr refatHL (A s) s)
      else if instr = 0x78 then Some (wr refA (B s) s)
      else if instr = 0x79 then Some (wr refA (C s) s)
      else if instr = 0x7a then Some (wr refA (D s) s)
      else if instr = 0x7b then Some (wr refA (E s) s)
      else if instr = 0x7c then Some (wr refA (H s) s)
      else if instr = 0x7d then Some (wr refA (L s) s)
      else if instr = 0x7e then Some (wr refA (atHL s) s)
      else if instr = 0x7f then Some (wr refA (A s) s)
      else if instr = 0x76 then Some (s\<lparr>halted := True\<rparr>)
      else if instr = 0x80 then Some (add (B s) False s)
      else if instr = 0x81 then Some (add (C s) False s)
      else if instr = 0x82 then Some (add (D s) False s)
      else if instr = 0x83 then Some (add (E s) False s)
      else if instr = 0x84 then Some (add (H s) False s)
      else if instr = 0x85 then Some (add (L s) False s)
      else if instr = 0x86 then Some (add (atHL s) False s)
      else if instr = 0x87 then Some (add (A s) False s)
      else if instr = 0x88 then Some (add (B s) True s)
      else if instr = 0x89 then Some (add (C s) True s)
      else if instr = 0x8a then Some (add (D s) True s)
      else if instr = 0x8b then Some (add (E s) True s)
      else if instr = 0x8c then Some (add (H s) True s)
      else if instr = 0x8d then Some (add (L s) True s)
      else if instr = 0x8e then Some (add (atHL s) True s)
      else if instr = 0x8f then Some (add (A s) True s)
      else if instr = 0x90 then Some (sub (B s) False s)
      else if instr = 0x91 then Some (sub (C s) False s)
      else if instr = 0x92 then Some (sub (D s) False s)
      else if instr = 0x93 then Some (sub (E s) False s)
      else if instr = 0x94 then Some (sub (H s) False s)
      else if instr = 0x95 then Some (sub (L s) False s)
      else if instr = 0x96 then Some (sub (atHL s) False s)
      else if instr = 0x97 then Some (sub (A s) False s)
      else if instr = 0x98 then Some (sub (B s) True s)
      else if instr = 0x99 then Some (sub (C s) True s)
      else if instr = 0x9a then Some (sub (D s) True s)
      else if instr = 0x9b then Some (sub (E s) True s)
      else if instr = 0x9c then Some (sub (H s) True s)
      else if instr = 0x9d then Some (sub (L s) True s)
      else if instr = 0x9e then Some (sub (atHL s) True s)
      else if instr = 0x9f then Some (sub (A s) True s)
      else if instr = 0xa0 then Some (logicAnd (B s) s)
      else if instr = 0xa1 then Some (logicAnd (C s) s)
      else if instr = 0xa2 then Some (logicAnd (D s) s)
      else if instr = 0xa3 then Some (logicAnd (E s) s)
      else if instr = 0xa4 then Some (logicAnd (H s) s)
      else if instr = 0xa5 then Some (logicAnd (L s) s)
      else if instr = 0xa6 then Some (logicAnd (atHL s) s)
      else if instr = 0xa7 then Some (logicAnd (A s) s)
      else if instr = 0xa8 then Some (logicXor (B s) s)
      else if instr = 0xa9 then Some (logicXor (C s) s)
      else if instr = 0xaa then Some (logicXor (D s) s)
      else if instr = 0xab then Some (logicXor (E s) s)
      else if instr = 0xac then Some (logicXor (H s) s)
      else if instr = 0xad then Some (logicXor (L s) s)
      else if instr = 0xae then Some (logicXor (atHL s) s)
      else if instr = 0xaf then Some (logicXor (A s) s)
      else if instr = 0xb0 then Some (logicOr (B s) s)
      else if instr = 0xb1 then Some (logicOr (C s) s)
      else if instr = 0xb2 then Some (logicOr (D s) s)
      else if instr = 0xb3 then Some (logicOr (E s) s)
      else if instr = 0xb4 then Some (logicOr (H s) s)
      else if instr = 0xb5 then Some (logicOr (L s) s)
      else if instr = 0xb6 then Some (logicOr (atHL s) s)
      else if instr = 0xb7 then Some (logicOr (A s) s)
      else if instr = 0xb8 then Some (cmp (B s) s)
      else if instr = 0xb9 then Some (cmp (C s) s)
      else if instr = 0xba then Some (cmp (D s) s)
      else if instr = 0xbb then Some (cmp (E s) s)
      else if instr = 0xbc then Some (cmp (H s) s)
      else if instr = 0xbd then Some (cmp (L s) s)
      else if instr = 0xbe then Some (cmp (atHL s) s)
      else if instr = 0xbf then Some (cmp (A s) s)
      else if instr = 0xc6 then (let (v, s1) = get8 s in Some (add v False s1))
      else if instr = 0xce then (let (v, s1) = get8 s in Some (add v True s1))
      else if instr = 0xd6 then (let (v, s1) = get8 s in Some (sub v False s1))
      else if instr = 0xde then (let (v, s1) = get8 s in Some (sub v True s1))
      else if instr = 0xe6 then (let (v, s1) = get8 s in Some (logicAnd v s1))
      else if instr = 0xee then (let (v, s1) = get8 s in Some (logicXor v s1))
      else if instr = 0xf6 then (let (v, s1) = get8 s in Some (logicOr v s1))
      else if instr = 0xfe then (let (v, s1) = get8 s in Some (cmp v s1))
      else if instr = 0xeb then (let temp = HL s; s1 = set_HL (DE s) s in Some (set_DE temp s1))
      else if instr = 0xe3 then do { w \<leftarrow> read16 (SP s) s;
             s1 \<leftarrow> write16 (SP s) (swapBytes (HL s)) s;
             Some (set_HL (swapBytes w) s1) }
      else if instr = 0xf9 then Some (s\<lparr>SP := swapBytes (HL s)\<rparr>)
      else if instr = 0xe9 then Some (s\<lparr>PC := swapBytes (HL s)\<rparr>)
      else if instr = 0xf3 then Some (s\<lparr>interruptsEnabled := False\<rparr>)
      else if instr = 0xfb then Some (s\<lparr>interruptsEnabled := True\<rparr>)
      else if instr = 0xc5 then push (BC s) s
      else if instr = 0xd5 then push (DE s) s
      else if instr = 0xe5 then push (HL s) s
      else if instr = 0xf5 then push (PSW s) s
      else if instr = 0xc1 then pop refBC s
      else if instr = 0xd1 then pop refDE s
      else if instr = 0xe1 then pop refHL s
      else if instr = 0xf1 then pop refPSW s
      else if instr = 0xdb then (let (port, s1) = get8 s in Some (wr refA (pin port) s1))
      else if instr = 0xd3 then (let (port, s1) = get8 s in Some (s1\<lparr>outputs := outputs s1 @ [(port, A s1)]\<rparr>))
      else if instr = 0xc7 then rst 0 s
      else if instr = 0xcf then rst 1 s
      else if instr = 0xd7 then rst 2 s
      else if instr = 0xdf then rst 3 s
      else if instr = 0xe7 then rst 4 s
      else if instr = 0xef then rst 5 s
      else if instr = 0xf7 then rst 6 s
      else if instr = 0xff then rst 7 s
      else if instr = 0xc2 then jmp (getFlag zero s = 0) s
      else if instr = 0xc3 then jmp True s
      else if instr = 0xca then jmp (getFlag zero s \<noteq> 0) s
      else if instr = 0xd2 then jmp (getFlag carry s = 0) s
      else if instr = 0xda then jmp (getFlag carry s \<noteq> 0) s
      else if instr = 0xe2 then jmp (getFlag parity s = 0) s
      else if instr = 0xea then jmp (getFlag parity s \<noteq> 0) s
      else if instr = 0xf2 then jmp (getFlag sign s = 0) s
      else if instr = 0xfa then jmp (getFlag sign s \<noteq> 0) s
      else if instr = 0xc9 \<or> instr = 0xd9 then ret True s
      else if instr = 0xc0 then ret (getFlag zero s = 0) s
      else if instr = 0xc8 then ret (getFlag zero s \<noteq> 0) s
      else if instr = 0xd0 then ret (getFlag carry s = 0) s
      else if instr = 0xd8 then ret (getFlag carry s \<noteq> 0) s
      else if instr = 0xe0 then ret (getFlag parity s = 0) s
      else if instr = 0xe8 then ret (getFlag parity s \<noteq> 0) s
      else if instr = 0xf0 then ret (getFlag sign s = 0) s
      else if instr = 0xf8 then ret (getFlag sign s \<noteq> 0) s
      else if instr = 0xcd \<or> instr = 0xdd \<or> instr = 0xed \<or> instr = 0xfd then call True s
      else if instr = 0xc4 then call (getFlag zero s = 0) s
      else if instr = 0xcc then call (getFlag zero s \<noteq> 0) s
      else if instr = 0xd4 then call (getFlag carry s = 0) s
      else if instr = 0xdc then call (getFlag carry s \<noteq> 0) s
      else if instr = 0xe4 then call (getFlag parity s = 0) s
      else if instr = 0xec then call (getFlag parity s \<noteq> 0) s
      else if instr = 0xf4 then call (getFlag sign s = 0) s
      else if instr = 0xfc then call (getFlag sign s \<noteq> 0) s
      else Some s)"

subsection \<open>Public operations\<close>

text \<open>The constructor runs \<open>setFlag(flag(1), true)\<close> on an object whose members have the
  values of their default member initialisers: \<open>SP = 0\<close>, \<open>PC = 0\<close>,
  \<open>interruptsEnabled = false\<close>, \<open>interruptPending = false\<close>. The members \<open>_PSW\<close>,
  \<open>_BC\<close>, \<open>_DE\<close>, \<open>_HL\<close>, \<open>interruptVector\<close> and \<open>halted\<close> have no initialiser: they
  keep what the object's storage held, \<open>storage\<close> below. An object of static storage
  duration (every driver of the repository declares the CPU as a global) starts from
  zeroed storage, \<open>zero_storage\<close>. No output has been sent yet.\<close>

definition cpu_ctor :: "cpu \<Rightarrow> (16 word \<Rightarrow> 8 word) \<Rightarrow> cpu" where
  "cpu_ctor storage preAllocatedRam =
     setFlag 1 True
       (storage\<lparr>SP := 0, PC := 0, ram := preAllocatedRam,
                interruptsEnabled := False, interruptPending := False, outputs := []\<rparr>)"

definition zero_storage :: cpu where
  "zero_storage =
     \<lparr>SP = 0, PC = 0, ram = (\<lambda>a. 0),
      PSW_reg = \<lparr>pair0 = 0, pair1 = 0\<rparr>, BC_reg = \<lparr>pair0 = 0, pair1 = 0\<rparr>,
      DE_reg = \<lparr>pair0 = 0, pair1 = 0\<rparr>, HL_reg = \<lparr>pair0 = 0, pair1 = 0\<rparr>,
      interruptsEnabled = False, interruptPending = False, interruptVector = 0,
      halted = False, outputs = []\<rparr>"

definition interrupt :: "8 word \<Rightarrow> cpu \<Rightarrow> cpu" where
  "interrupt v s = s\<lparr>interruptsEnabled := False, interruptPending := True, interruptVector := v\<rparr>"

definition step :: "(8 word \<Rightarrow> 8 word) \<Rightarrow> cpu \<Rightarrow> cpu option" where
  "step pin s =
     (if interruptPending s
      then do { s1 \<leftarrow> exec pin (interruptVector s) s;
                Some (s1\<lparr>interruptPending := False, halted := False\<rparr>) }
      else if \<not> halted s then (let (instr, s1) = get8 s in exec pin instr s1)
      else Some s)"

subsection \<open>Reachable states\<close>

text \<open>The states a driver can reach: it constructs the CPU as a global object over some
  memory image and then calls \<open>step\<close> (with whatever the input port handler answers) and
  \<open>interrupt\<close>, in any order.\<close>

inductive reachable :: "cpu \<Rightarrow> bool" where
  reachable_reset: "reachable (cpu_ctor zero_storage m)"
| reachable_step: "reachable s \<Longrightarrow> step pin s = Some s' \<Longrightarrow> reachable s'"
| reachable_interrupt: "reachable s \<Longrightarrow> reachable (interrupt v s)"

text \<open>The fixed bits of the flag byte: bits 5 and 3 clear, bit 1 set.\<close>

definition fixed_bits :: "8 word \<Rightarrow> bool" where
  "fixed_bits f = (f AND 0x28 = 0 \<and> f AND 0x02 = 0x02)"

text \<open>A state in the middle of \<open>LHLD 0x025b\<close> (the program of the repository's
  \<open>post.cpp\<close>, with \<open>0xff 0x03\<close> stored at \<open>0x025b\<close>): the opcode has been fetched, the
  program counter is at the operand; \<open>HL\<close> holds \<open>0x1234\<close>.\<close>

definition lhld_state :: cpu where
  "lhld_state =
     (cpu_ctor zero_storage
        ((ram zero_storage)(0 := 0x2a, 1 := 0x5b, 2 := 0x02, 0x025b := 0xff, 0x025c := 0x03)))
     \<lparr>PC := 1, HL_reg := \<lparr>pair0 = 0x34, pair1 = 0x12\<rparr>\<rparr>"

text \<open>A result of \<open>exec\<close> or \<open>step\<close> whose flag byte, if there is a result, has the fixed
  bits right.\<close>

definition fixed_result :: "cpu option \<Rightarrow> bool" where
  "fixed_result r = (case r of None \<Rightarrow> True | Some s' \<Rightarrow> fixed_bits (flags s'))"

text \<open>A program that pops an arbitrary word into \<open>PSW\<close>: \<open>LXI SP,0x0010; POP PSW\<close> with
  \<open>0xFF 0xFF\<close> stored at \<open>0x0010\<close>, and the state two steps after construction.\<close>

definition pop_psw_ram :: "16 word \<Rightarrow> 8 word" where
  "pop_psw_ram = (ram zero_storage)(0 := 0x31, 1 := 0x10, 2 := 0x00, 3 := 0xF1, 0x10 := 0xFF, 0x11 := 0xFF)"

definition after_pop_psw :: cpu where
  "after_pop_psw = (cpu_ctor zero_storage pop_psw_ram)
      \<lparr>SP := 0x12, PC := 4, PSW_reg := \<lparr>pair0 = 0xFF, pair1 = 0xD7\<rparr>\<rparr>"

section \<open>Basic facts\<close>

lemmas acc_defs = A_def flags_def B_def C_def D_def E_def H_def L_def atHL_def high_def low_def
  PSW_def BC_def DE_def HL_def set_PSW_def set_BC_def set_DE_def set_HL_def set_flags_def
  full_def set_full_def

lemmas flag_defs = sign_def zero_def auxCarry_def parity_def carry_def getFlag_def setFlag_def

lemmas mem_defs = read16_def write16_def atSP_def set_atSP_def get8_def get16_def

declare popcount.simps [simp del]

declare rd.simps [simp del] wr.simps [simp del] wr16.simps [simp del]

lemma popcount_0 [simp]: "popcount 0 = 0"
  by (simp add: popcount.simps)

lemma popcount_Suc_0 [simp]: "popcount (Suc 0) = 1"
  by (simp add: popcount.simps [of "Suc 0"])

lemma popcount_numeral [simp]:
  "popcount (numeral k) = numeral k mod 2 + popcount (numeral k div 2)"
  by (subst popcount.simps) simp

lemma full_set_full: "full (set_full w) = w"
  unfolding full_def set_full_def
  apply simp
  apply (rule bit_word_eqI)
  apply (auto simp: bit_simps)
  done

lemma flags_setFlag:
  "flags (setFlag f c s) =
     (if c then flags s OR push_bit f 1 else flags s AND NOT (push_bit f 1))"
  by (simp add: setFlag_def set_flags_def flags_def low_def)

lemma bit_flags_setFlag:
  "bit (flags (setFlag f c s)) g = (if g = f \<and> f < 8 then c else bit (flags s) g)"
  by (auto simp: flags_setFlag bit_simps dest: bit_imp_le_length)

lemma getFlag_bit: "getFlag f s = of_bool (bit (flags s) f)"
proof -
  have "odd (uint (drop_bit f (flags s))) = bit (uint (drop_bit f (flags s))) 0"
    by (simp add: bit_0)
  also have "\<dots> = bit (flags s) f"
    by (simp add: bit_uint_iff bit_drop_bit_eq)
  finally show ?thesis
    by (simp add: getFlag_def mod_2_eq_odd)
qed

lemma lowBitsOf_take_bit: "lowBitsOf n k = take_bit k n"
proof -
  have "unat n mod 2 ^ k = unat (take_bit k n)"
    by (simp only: unsigned_take_bit_eq take_bit_eq_mod [where ?'a = nat])
  then show ?thesis
    by (simp add: lowBitsOf_def)
qed

lemma highBitsOf_drop_bit: "highBitsOf n k = drop_bit (LENGTH('a) - k) (n :: 'a::len word)"
proof -
  have "unat n div 2 ^ (LENGTH('a) - k) = unat (drop_bit (LENGTH('a) - k) n)"
    by (simp only: unat_drop_bit_eq drop_bit_eq_div [where ?'a = nat])
  then show ?thesis
    by (simp add: highBitsOf_def)
qed

lemma A_setFlag [simp]: "A (setFlag f c s) = A s"
  by (simp add: setFlag_def acc_defs)

lemma rd_setFlag [simp]: "rd r (setFlag f c s) = rd r s"
  by (cases r) (simp_all add: rd.simps setFlag_def acc_defs)

lemma flags_wr [simp]: "flags (wr r v s) = flags s"
  by (cases r) (simp_all add: wr.simps acc_defs)

lemma rd_wr_same [simp]: "rd r (wr r v s) = v"
  by (cases r) (simp_all add: rd.simps wr.simps acc_defs)

lemma A_wr_refA [simp]: "A (wr refA v s) = v"
  by (simp add: wr.simps acc_defs)

lemma getFlag_setFlag:
  "getFlag g (setFlag f c s) = (if g = f \<and> f < 8 then of_bool c else getFlag g s)"
  by (simp add: getFlag_bit bit_flags_setFlag)

lemma getFlag_wr [simp]: "getFlag g (wr r v s) = getFlag g s"
  by (simp add: getFlag_bit)

lemma A_updateFlags [simp]: "A (updateFlags x s) = A s"
  by (simp add: updateFlags_def Let_def)

lemma rd_updateFlags [simp]: "rd r (updateFlags x s) = rd r s"
  by (simp add: updateFlags_def Let_def)

lemma getFlag_updateFlags:
  "getFlag g (updateFlags x s) =
     (if g = parity then of_bool (builtin_parity (ucast x) = 0)
      else if g = zero then of_bool (x = 0)
      else if g = sign then of_bool (sint x < 0)
      else getFlag g s)"
  by (simp add: updateFlags_def Let_def getFlag_setFlag sign_def zero_def parity_def)

lemma ucast_16_8: "(ucast (w :: 16 word) :: 8 word) = of_nat (unat w mod 256)"
  by (rule word_unat_eq_iff [THEN iffD2])
    (simp add: unsigned_ucast_eq unat_of_nat take_bit_eq_mod)

lemma getFlag_updateCarryFlag:
  "getFlag g (updateCarryFlag a b s) = (if g = carry then of_bool (uint b > 255 - uint a) else getFlag g s)"
  by (simp add: updateCarryFlag_def getFlag_setFlag carry_def)

lemma getFlag_updateAuxCarryFlag:
  "getFlag g (updateAuxCarryFlag a b s) =
     (if g = auxCarry then of_bool (uint (lowBitsOf b 4) + uint (lowBitsOf a 4) > 15) else getFlag g s)"
  by (simp add: updateAuxCarryFlag_def getFlag_setFlag auxCarry_def)

lemma A_updateCarryFlag [simp]: "A (updateCarryFlag a b s) = A s"
  by (simp add: updateCarryFlag_def)

lemma A_updateAuxCarryFlag [simp]: "A (updateAuxCarryFlag a b s) = A s"
  by (simp add: updateAuxCarryFlag_def)

lemma A_add: "A (add v w s) = A s + (if w \<and> getFlag carry s \<noteq> 0 then v + 1 else v)"
  by (simp add: add_def Let_def)

lemma carry_add:
  "getFlag carry (add v w s) =
     of_bool (uint (if w \<and> getFlag carry s \<noteq> 0 then v + 1 else v) > 255 - uint (A s))"
  by (simp add: add_def Let_def getFlag_updateFlags getFlag_updateCarryFlag getFlag_updateAuxCarryFlag
      carry_def parity_def zero_def sign_def auxCarry_def)

lemma auxCarry_add:
  "getFlag auxCarry (add v w s) =
     of_bool (uint (lowBitsOf (if w \<and> getFlag carry s \<noteq> 0 then v + 1 else v) 4)
               + uint (lowBitsOf (A s) 4) > 15)"
  by (simp add: add_def Let_def getFlag_updateFlags getFlag_updateCarryFlag getFlag_updateAuxCarryFlag
      carry_def parity_def zero_def sign_def auxCarry_def)

lemma zero_add:
  "getFlag zero (add v w s) = of_bool (A (add v w s) = 0)"
  by (simp add: add_def Let_def getFlag_updateFlags parity_def zero_def)


lemma flag_distinct [simp]:
  "sign \<noteq> zero" "sign \<noteq> auxCarry" "sign \<noteq> parity" "sign \<noteq> carry"
  "zero \<noteq> sign" "zero \<noteq> auxCarry" "zero \<noteq> parity" "zero \<noteq> carry"
  "auxCarry \<noteq> sign" "auxCarry \<noteq> zero" "auxCarry \<noteq> parity" "auxCarry \<noteq> carry"
  "parity \<noteq> sign" "parity \<noteq> zero" "parity \<noteq> auxCarry" "parity \<noteq> carry"
  "carry \<noteq> sign" "carry \<noteq> zero" "carry \<noteq> auxCarry" "carry \<noteq> parity"
  "sign < 8" "zero < 8" "auxCarry < 8" "parity < 8" "carry < 8"
  by (simp_all add: sign_def zero_def auxCarry_def parity_def carry_def)

lemma twosComp_minus: "twosComp n = - n"
  by (simp add: twosComp_def minus_eq_not_plus_1)

lemma uint_neg8: "uint (- r :: 8 word) = (if r = 0 then 0 else 256 - uint r)"
proof (cases "r = 0")
  case True
  then show ?thesis by simp
next
  case False
  then have "0 < uint r" "uint r < 256"
    using uint_lt2p [of r] by (simp_all add: word_greater_zero_iff [symmetric] word_less_def)
  then show ?thesis
    using False by (simp add: uint_word_ariths zmod_zminus1_eq_if)
qed

lemma A_cmp: "A (cmp r s) = A s"
  by (simp add: cmp_def Let_def)

lemma zero_cmp: "(getFlag zero (cmp r s) \<noteq> 0) = (A s = r)"
  by (simp add: cmp_def sub_def Let_def getFlag_setFlag zero_add A_add twosComp_minus)

lemma carry_cmp: "(getFlag carry (cmp r s) \<noteq> 0) = (r = 0 \<or> A s < r)"
proof -
  have "uint (A s) < 256" using uint_lt2p [of "A s"] by simp
  then show ?thesis
    by (auto simp: cmp_def sub_def Let_def getFlag_setFlag carry_add twosComp_minus uint_neg8
        word_less_def)
qed

lemma carry_dcr: "getFlag carry (dcr r8 s) = getFlag carry s"
  by (simp add: dcr_def Let_def getFlag_updateFlags getFlag_setFlag)

lemma rd_dcr: "rd r8 (dcr r8 s) = rd r8 s - 1"
  by (simp add: dcr_def Let_def)

lemma and15: "lowBitsOf x 4 = x AND 0x0F" for x :: "8 word"
  by (simp add: lowBitsOf_take_bit take_bit_eq_mask mask_eq_exp_minus_1)

lemma auxCarry_dcr: "(getFlag auxCarry (dcr r8 s) \<noteq> 0) = (rd r8 s AND 0x0F = 0)"
  by (simp add: dcr_def Let_def getFlag_updateFlags getFlag_setFlag and15)

lemma parity_even: "(builtin_parity (ucast (x :: 8 word)) = 0) = even (popcount (unat x))"
proof -
  have "unat (ucast x :: 32 word) = unat x"
    by (simp add: unsigned_ucast_eq take_bit_nat_eq_self unsigned_less [of x, THEN less_trans])
  then show ?thesis
    by (simp add: builtin_parity_def) presburger
qed

lemma szp_dcr:
  "(getFlag sign (dcr r8 s) \<noteq> 0) = (sint (rd r8 s - 1) < 0) \<and>
   (getFlag zero (dcr r8 s) \<noteq> 0) = (rd r8 s - 1 = 0) \<and>
   (getFlag parity (dcr r8 s) \<noteq> 0) = even (popcount (unat (rd r8 s - 1)))"
  by (simp add: dcr_def Let_def getFlag_updateFlags getFlag_setFlag parity_even)

lemma auxCarry_sub1: "(getFlag auxCarry (sub 1 False s) \<noteq> 0) = (A s AND 0x0F \<noteq> 0)"
proof -
  have "(- 1 :: 8 word) AND 0x0F = 0x0F" by simp
  moreover have "(0 < uint (A s AND 0x0F)) = (A s AND 0x0F \<noteq> 0)"
    by (simp add: word_greater_zero_iff [symmetric] word_less_def)
  ultimately show ?thesis
    by (simp add: sub_def twosComp_minus auxCarry_add and15)
qed

lemma high1_bit7: "(highBitsOf (x :: 8 word) (Suc 0) \<noteq> 0) = bit x 7"
proof -
  have "drop_bit 7 x = (if bit x 7 then 1 else 0)"
  proof (rule bit_word_eqI)
    fix n :: nat
    show "bit (drop_bit 7 x) n = bit (if bit x 7 then 1 else 0 :: 8 word) n"
    proof (cases "n = 0")
      case True
      then show ?thesis by (simp add: bit_simps)
    next
      case False
      have "\<not> bit x (7 + n)"
        using False bit_imp_le_length [of x "7 + n"] by auto
      with False show ?thesis by (simp add: bit_simps)
    qed
  qed
  then show ?thesis by (simp add: highBitsOf_drop_bit)
qed

lemma get16_Some:
  "PC s \<noteq> 0xFFFF \<Longrightarrow>
   get16 s = Some (ucast (ram s (PC s)) OR push_bit 8 (ucast (ram s (PC s + 1))), s\<lparr>PC := PC s + 2\<rparr>)"
  by (simp add: get16_def read16_def)

lemma HL_set_HL [simp]: "HL (set_HL w s) = w"
  by (simp add: HL_def set_HL_def full_set_full)

lemma H_L_set_HL [simp]:
  "H (set_HL w s) = ucast w" "L (set_HL w s) = ucast (drop_bit 8 w)"
  by (simp_all add: acc_defs)

lemma ucast_8_16_8 [simp]: "(ucast (ucast (b :: 8 word) :: 16 word) :: 8 word) = b"
  by (rule bit_word_eqI) (simp add: bit_simps)

lemma drop_bit_8_ucast [simp]: "drop_bit 8 (ucast (b :: 8 word) :: 16 word) = 0"
  by (rule bit_word_eqI) (auto simp: bit_simps dest: bit_imp_le_length)

lemma exec_lhld:
  "get16 s = Some (a, s1) \<Longrightarrow> exec pin 0x2a s = Some (set_HL (ucast (ram s1 a)) s1)"
  by (simp add: exec_def)

lemma exec_shld:
  "get16 s = Some (a, s1) \<Longrightarrow> exec pin 0x22 s = Some (s1\<lparr>ram := (ram s1)(a := ucast (HL s1))\<rparr>)"
  by (simp add: exec_def)

lemma exec_ral:
  "exec pin 0x17 s = Some (wr refA (push_bit 1 (A s)) (setFlag carry (bit (A s) 7) s))"
  by (simp add: exec_def Let_def high1_bit7)

text \<open>The state after construction in zeroed storage.\<close>

lemma ctor_zero:
  "cpu_ctor zero_storage m =
     \<lparr>SP = 0, PC = 0, ram = m,
      PSW_reg = \<lparr>pair0 = 0, pair1 = 2\<rparr>, BC_reg = \<lparr>pair0 = 0, pair1 = 0\<rparr>,
      DE_reg = \<lparr>pair0 = 0, pair1 = 0\<rparr>, HL_reg = \<lparr>pair0 = 0, pair1 = 0\<rparr>,
      interruptsEnabled = False, interruptPending = False, interruptVector = 0,
      halted = False, outputs = []\<rparr>"
  by (simp add: cpu_ctor_def zero_storage_def acc_defs flag_defs)

subsection \<open>The fixed bits of the flag byte\<close>

lemma bit_40_int: "bit (40 :: int) n = (n = 5 \<or> n = 3)"
proof -
  have "bit (push_bit 5 1 OR push_bit 3 1 :: int) n = (n = 5 \<or> n = 3)"
    by (simp only: bit_or_iff bit_push_bit_iff bit_1_iff possible_bit_int) auto
  then show ?thesis by simp
qed

lemma bit_2_int: "bit (2 :: int) n = (n = 1)"
proof -
  have "bit (push_bit 1 1 :: int) n = (n = 1)"
    by (simp only: bit_push_bit_iff bit_1_iff possible_bit_int) auto
  then show ?thesis by simp
qed

lemma fixed_bits_iff: "fixed_bits f = (\<not> bit f 5 \<and> \<not> bit f 3 \<and> bit f 1)"
proof -
  have a: "(f AND 0x28 = 0) = (\<not> bit f 5 \<and> \<not> bit f 3)"
  proof
    assume z: "f AND 0x28 = 0"
    have "bit (f AND 0x28) 5 = bit f 5" "bit (f AND 0x28) 3 = bit f 3"
      by (simp_all add: bit_and_iff bit_40_int)
    with z show "\<not> bit f 5 \<and> \<not> bit f 3" by simp
  next
    assume "\<not> bit f 5 \<and> \<not> bit f 3"
    then show "f AND 0x28 = 0"
      by - (rule bit_word_eqI, auto simp: bit_and_iff bit_40_int)
  qed
  have b: "(f AND 0x02 = 0x02) = bit f 1"
  proof
    assume z: "f AND 0x02 = 0x02"
    have "bit (f AND 0x02) 1 = bit f 1"
      by (simp add: bit_and_iff bit_2_int)
    with z show "bit f 1" by (simp add: bit_2_int)
  next
    assume "bit f 1"
    then show "f AND 0x02 = 0x02"
      by - (rule bit_word_eqI, auto simp: bit_and_iff bit_2_int)
  qed
  show ?thesis
    by (simp only: fixed_bits_def a b) blast
qed

lemma fixed_setFlag [simp]:
  "fixed_bits (flags (setFlag sign c s)) = fixed_bits (flags s)"
  "fixed_bits (flags (setFlag zero c s)) = fixed_bits (flags s)"
  "fixed_bits (flags (setFlag auxCarry c s)) = fixed_bits (flags s)"
  "fixed_bits (flags (setFlag parity c s)) = fixed_bits (flags s)"
  "fixed_bits (flags (setFlag carry c s)) = fixed_bits (flags s)"
  by (simp_all add: fixed_bits_iff bit_flags_setFlag sign_def zero_def auxCarry_def parity_def
      carry_def)

lemma fixed_after_reset_bits:
  "fixed_bits (flags (setFlag (Suc 0) True (setFlag 3 False (setFlag 5 False s))))"
  by (simp add: fixed_bits_iff bit_flags_setFlag)

lemma flags_updateFlags_fixed [simp]: "fixed_bits (flags (updateFlags x s)) = fixed_bits (flags s)"
  by (simp add: updateFlags_def Let_def)


lemma flags_update [simp]:
  "flags (s\<lparr>SP := sp\<rparr>) = flags s"
  "flags (s\<lparr>PC := pc\<rparr>) = flags s"
  "flags (s\<lparr>ram := m\<rparr>) = flags s"
  "flags (s\<lparr>BC_reg := r\<rparr>) = flags s"
  "flags (s\<lparr>DE_reg := r\<rparr>) = flags s"
  "flags (s\<lparr>HL_reg := r\<rparr>) = flags s"
  "flags (s\<lparr>interruptsEnabled := b\<rparr>) = flags s"
  "flags (s\<lparr>interruptPending := b\<rparr>) = flags s"
  "flags (s\<lparr>interruptVector := v\<rparr>) = flags s"
  "flags (s\<lparr>halted := b\<rparr>) = flags s"
  "flags (s\<lparr>outputs := os\<rparr>) = flags s"
  by (simp_all add: flags_def)

lemma flags_set_pair [simp]:
  "flags (set_BC w s) = flags s" "flags (set_DE w s) = flags s" "flags (set_HL w s) = flags s"
  by (simp_all add: set_BC_def set_DE_def set_HL_def)

lemma fixed_inr [simp]: "fixed_bits (flags (inr r s)) = fixed_bits (flags s)"
  by (simp add: inr_def Let_def)

lemma fixed_dcr [simp]: "fixed_bits (flags (dcr r s)) = fixed_bits (flags s)"
  by (simp add: dcr_def Let_def)

lemma fixed_dad [simp]: "fixed_bits (flags (dad w s)) = fixed_bits (flags s)"
  by (simp add: dad_def Let_def)

lemma fixed_add [simp]: "fixed_bits (flags (add v c s)) = fixed_bits (flags s)"
  by (simp add: add_def Let_def updateCarryFlag_def updateAuxCarryFlag_def)

lemma fixed_sub [simp]: "fixed_bits (flags (sub v c s)) = fixed_bits (flags s)"
  by (simp add: sub_def)

lemma fixed_cmp [simp]: "fixed_bits (flags (cmp v s)) = fixed_bits (flags s)"
  by (simp add: cmp_def Let_def)

lemma fixed_logic [simp]:
  "fixed_bits (flags (logicAnd v s)) = fixed_bits (flags s)"
  "fixed_bits (flags (logicOr v s)) = fixed_bits (flags s)"
  "fixed_bits (flags (logicXor v s)) = fixed_bits (flags s)"
  by (simp_all add: logicAnd_def logicOr_def logicXor_def Let_def)

lemma flags_get8 [simp]: "flags (snd (get8 s)) = flags s"
  by (simp add: get8_def)

lemma flags_get16: "get16 s = Some (w, s1) \<Longrightarrow> flags s1 = flags s"
  by (auto simp: get16_def read16_def split: if_splits)

lemma flags_write16: "write16 a w s = Some s' \<Longrightarrow> flags s' = flags s"
  by (auto simp: write16_def split: if_splits)

lemma flags_push: "push w s = Some s' \<Longrightarrow> flags s' = flags s"
  by (auto simp: push_def set_atSP_def dest: flags_write16)

lemma fixed_pop: "pop r s = Some s' \<Longrightarrow> fixed_bits (flags s')"
  by (auto simp: pop_def Let_def bind_eq_Some_conv fixed_after_reset_bits)

lemma fixed_rst: "rst n s = Some s' \<Longrightarrow> flags s' = flags s"
  by (auto simp: rst_def bind_eq_Some_conv dest: flags_push)

lemma fixed_jmp: "jmp c s = Some s' \<Longrightarrow> flags s' = flags s"
  by (auto simp: jmp_def bind_eq_Some_conv split: if_splits dest: flags_get16)

lemma fixed_ret: "ret c s = Some s' \<Longrightarrow> fixed_bits (flags s) \<Longrightarrow> fixed_bits (flags s')"
  by (auto simp: ret_def split: if_splits dest: fixed_pop)

lemma fixed_call: "call c s = Some s' \<Longrightarrow> flags s' = flags s"
  by (auto simp: call_def bind_eq_Some_conv split: if_splits)
     (metis flags_get16 flags_push)

lemma fixed_result_Some [simp]: "fixed_result (Some s') = fixed_bits (flags s')"
  by (simp add: fixed_result_def)

lemma fixed_result_if:
  "fixed_result a \<Longrightarrow> fixed_result b \<Longrightarrow> fixed_result (if c then a else b)"
  by simp

lemma fixed_result_I: "(\<And>s'. r = Some s' \<Longrightarrow> fixed_bits (flags s')) \<Longrightarrow> fixed_result r"
  by (cases r) (simp_all add: fixed_result_def)

lemma fixed_result_get16:
  "(\<And>w s1. flags s1 = flags s \<Longrightarrow> fixed_result (f w s1))
   \<Longrightarrow> fixed_result (get16 s \<bind> (\<lambda>(w, s1). f w s1))"
proof (rule fixed_result_I)
  fix s'
  assume h: "\<And>w s1. flags s1 = flags s \<Longrightarrow> fixed_result (f w s1)"
    and b: "get16 s \<bind> (\<lambda>(w, s1). f w s1) = Some s'"
  from b obtain w s1 where g: "get16 s = Some (w, s1)" and f: "f w s1 = Some s'"
    by (auto simp: bind_eq_Some_conv)
  have "fixed_result (f w s1)"
    by (rule h) (rule flags_get16 [OF g])
  with f show "fixed_bits (flags s')"
    by simp
qed

lemma fixed_result_push:
  "fixed_bits (flags s) \<Longrightarrow> fixed_result (push w s)"
  by (rule fixed_result_I) (simp add: flags_push)

lemma fixed_result_pop: "fixed_result (pop r s)"
  by (rule fixed_result_I) (simp add: fixed_pop)

lemma fixed_result_rst: "fixed_bits (flags s) \<Longrightarrow> fixed_result (rst n s)"
  by (rule fixed_result_I) (simp add: fixed_rst)

lemma fixed_result_jmp: "fixed_bits (flags s) \<Longrightarrow> fixed_result (jmp c s)"
  by (rule fixed_result_I) (simp add: fixed_jmp)

lemma fixed_result_ret: "fixed_bits (flags s) \<Longrightarrow> fixed_result (ret c s)"
  by (rule fixed_result_I) (simp add: fixed_ret)

lemma fixed_result_call: "fixed_bits (flags s) \<Longrightarrow> fixed_result (call c s)"
  by (rule fixed_result_I) (simp add: fixed_call)

lemma fixed_result_xthl:
  "fixed_bits (flags s) \<Longrightarrow>
   fixed_result (read16 a s \<bind> (\<lambda>w. write16 a v s \<bind> (\<lambda>s1. Some (set_HL (g w) s1))))"
  by (rule fixed_result_I) (auto simp: bind_eq_Some_conv dest: flags_write16)

lemma fixed_result_exec: "fixed_bits (flags s) \<Longrightarrow> fixed_result (exec pin i s)"
  unfolding exec_def
  apply (intro fixed_result_if)
  apply (simp_all add: Let_def get8_def fixed_result_get16 fixed_result_push fixed_result_pop
      fixed_result_rst fixed_result_jmp fixed_result_ret fixed_result_call fixed_result_xthl)
  done


lemma fixed_result_step: "fixed_bits (flags s) \<Longrightarrow> fixed_result (step pin s)"
proof -
  assume f: "fixed_bits (flags s)"
  have a: "fixed_result (exec pin (interruptVector s) s
              \<bind> (\<lambda>s1. Some (s1\<lparr>interruptPending := False, halted := False\<rparr>)))"
  proof (rule fixed_result_I)
    fix s'
    assume "exec pin (interruptVector s) s
              \<bind> (\<lambda>s1. Some (s1\<lparr>interruptPending := False, halted := False\<rparr>)) = Some s'"
    then obtain s1 where e: "exec pin (interruptVector s) s = Some s1"
      and s': "s' = s1\<lparr>interruptPending := False, halted := False\<rparr>"
      by (auto simp: bind_eq_Some_conv)
    from fixed_result_exec [OF f, of pin "interruptVector s"] e have "fixed_bits (flags s1)"
      by simp
    with s' show "fixed_bits (flags s')" by simp
  qed
  have b: "fixed_result (exec pin (ram s (PC s)) (s\<lparr>PC := PC s + 1\<rparr>))"
    by (rule fixed_result_exec) (simp add: f)
  show ?thesis
    using a b f by (simp add: step_def get8_def)
qed

lemma pop_psw_step1:
  "step pin (cpu_ctor zero_storage pop_psw_ram)
     = Some ((cpu_ctor zero_storage pop_psw_ram)\<lparr>SP := 0x10, PC := 3\<rparr>)"
  apply (simp add: ctor_zero step_def get8_def pop_psw_ram_def)
  apply (simp add: exec_def mem_defs)
  done

lemma pop_psw_step2:
  "step pin ((cpu_ctor zero_storage pop_psw_ram)\<lparr>SP := 0x10, PC := 3\<rparr>) = Some after_pop_psw"
  apply (simp add: ctor_zero step_def get8_def pop_psw_ram_def after_pop_psw_def)
  apply (simp add: exec_def pop_def swapBytes_def highBitsOf_def lowBitsOf_def mem_defs
      wr16.simps acc_defs flag_defs ucast_16_8)
  done

subsection \<open>The four-step stack scenario\<close>

lemma scenario4_load:
  "load 0 [0x31, 0x00, 0x10, 0x21, 0xEF, 0xBE, 0xE5, 0xD1] (cpu_ctor zero_storage m)
   = Some (cpu_ctor zero_storage
       (m(0 := 0x31, 1 := 0x00, 2 := 0x10, 3 := 0x21, 4 := 0xEF, 5 := 0xBE, 6 := 0xE5,
          7 := 0xD1)))"
  by (simp add: ctor_zero)

lemma scenario4_step1:
  "step pin (cpu_ctor zero_storage
       (m(0 := 0x31, 1 := 0x00, 2 := 0x10, 3 := 0x21, 4 := 0xEF, 5 := 0xBE, 6 := 0xE5,
          7 := 0xD1)))
   = Some ((cpu_ctor zero_storage
       (m(0 := 0x31, 1 := 0x00, 2 := 0x10, 3 := 0x21, 4 := 0xEF, 5 := 0xBE, 6 := 0xE5,
          7 := 0xD1)))\<lparr>SP := 0x1000, PC := 3\<rparr>)"
  apply (simp add: ctor_zero step_def get8_def)
  apply (simp add: exec_def mem_defs)
  done

lemma scenario4_step2:
  "step pin ((cpu_ctor zero_storage
       (m(0 := 0x31, 1 := 0x00, 2 := 0x10, 3 := 0x21, 4 := 0xEF, 5 := 0xBE, 6 := 0xE5,
          7 := 0xD1)))\<lparr>SP := 0x1000, PC := 3\<rparr>)
   = Some ((cpu_ctor zero_storage
       (m(0 := 0x31, 1 := 0x00, 2 := 0x10, 3 := 0x21, 4 := 0xEF, 5 := 0xBE, 6 := 0xE5,
          7 := 0xD1)))
       \<lparr>SP := 0x1000, PC := 6, HL_reg := \<lparr>pair0 = 0xEF, pair1 = 0xBE\<rparr>\<rparr>)"
  apply (simp add: ctor_zero step_def get8_def)
  apply (simp add: exec_def mem_defs acc_defs)
  done

lemma scenario4_step3:
  "step pin ((cpu_ctor zero_storage
       (m(0 := 0x31, 1 := 0x00, 2 := 0x10, 3 := 0x21, 4 := 0xEF, 5 := 0xBE, 6 := 0xE5,
          7 := 0xD1)))
       \<lparr>SP := 0x1000, PC := 6, HL_reg := \<lparr>pair0 = 0xEF, pair1 = 0xBE\<rparr>\<rparr>)
   = Some ((cpu_ctor zero_storage
       (m(0 := 0x31, 1 := 0x00, 2 := 0x10, 3 := 0x21, 4 := 0xEF, 5 := 0xBE, 6 := 0xE5,
          7 := 0xD1, 0x0FFE := 0xBE, 0x0FFF := 0xEF)))
       \<lparr>SP := 0x0FFE, PC := 7, HL_reg := \<lparr>pair0 = 0xEF, pair1 = 0xBE\<rparr>\<rparr>)"
  apply (simp add: ctor_zero step_def get8_def)
  apply (simp add: exec_def push_def swapBytes_def highBitsOf_def lowBitsOf_def mem_defs
      acc_defs ucast_16_8)
  done

lemma scenario4_step4:
  "step pin ((cpu_ctor zero_storage
       (m(0 := 0x31, 1 := 0x00, 2 := 0x10, 3 := 0x21, 4 := 0xEF, 5 := 0xBE, 6 := 0xE5,
          7 := 0xD1, 0x0FFE := 0xBE, 0x0FFF := 0xEF)))
       \<lparr>SP := 0x0FFE, PC := 7, HL_reg := \<lparr>pair0 = 0xEF, pair1 = 0xBE\<rparr>\<rparr>)
   = Some ((cpu_ctor zero_storage
       (m(0 := 0x31, 1 := 0x00, 2 := 0x10, 3 := 0x21, 4 := 0xEF, 5 := 0xBE, 6 := 0xE5,
          7 := 0xD1, 0x0FFE := 0xBE, 0x0FFF := 0xEF)))
       \<lparr>SP := 0x1000, PC := 8, HL_reg := \<lparr>pair0 = 0xEF, pair1 = 0xBE\<rparr>,
          DE_reg := \<lparr>pair0 = 0xEF, pair1 = 0xBE\<rparr>\<rparr>)"
  apply (simp add: ctor_zero step_def get8_def)
  apply (simp add: exec_def pop_def swapBytes_def highBitsOf_def lowBitsOf_def mem_defs
      wr16.simps acc_defs flag_defs ucast_16_8)
  done

section \<open>The claims\<close>

text \<open>
  C1. Claimed: a conditional jump or call whose condition is false still fetches its
  two address bytes, so the program counter ends three past the opcode. The code
  fetches the address only inside \<open>if(condition)\<close>: \<open>jmp\<close> and \<open>call\<close> with a false
  condition return the state as it is, and a \<open>JZ 0x1234\<close> at address 0, stepped from
  the state after construction (zero flag clear), ends with \<open>PC = 1\<close> and nothing else
  changed. The next step would execute the address byte \<open>0x34\<close> as an opcode.
\<close>

theorem C1_not_taken_branch_keeps_operand:
  "jmp False s = Some s \<and> call False s = Some s \<and>
   step pin (cpu_ctor zero_storage ((ram zero_storage)(0 := 0xCA, 1 := 0x34, 2 := 0x12)))
     = Some ((cpu_ctor zero_storage ((ram zero_storage)(0 := 0xCA, 1 := 0x34, 2 := 0x12)))
               \<lparr>PC := 1\<rparr>)"
proof -
  have "step pin (cpu_ctor zero_storage ((ram zero_storage)(0 := 0xCA, 1 := 0x34, 2 := 0x12)))
     = Some ((cpu_ctor zero_storage ((ram zero_storage)(0 := 0xCA, 1 := 0x34, 2 := 0x12)))
               \<lparr>PC := 1\<rparr>)"
    apply (simp add: ctor_zero step_def get8_def)
    apply (simp add: exec_def jmp_def acc_defs flag_defs)
    done
  then show ?thesis
    by (simp add: jmp_def call_def)
qed

text \<open>
  C2. Claimed: a latched interrupt is served only by a \<open>step\<close> made while interrupts are
  enabled; with \<open>interruptsEnabled\<close> false the latched opcode is not executed. The code's
  \<open>step\<close> tests \<open>interruptPending\<close> alone. After construction interrupts are disabled,
  \<open>interrupt(0x3C)\<close> latches \<open>INR A\<close> (and disables interrupts once more), and the next
  \<open>step\<close> executes it: the accumulator becomes 1 and the program counter stays 0.
\<close>

theorem C2_pending_interrupt_runs_while_disabled:
  "\<not> interruptsEnabled (interrupt 0x3C (cpu_ctor zero_storage m)) \<and>
   interruptPending (interrupt 0x3C (cpu_ctor zero_storage m)) \<and>
   step pin (interrupt 0x3C (cpu_ctor zero_storage m))
     = Some ((cpu_ctor zero_storage m)
               \<lparr>PSW_reg := \<lparr>pair0 = 1, pair1 = 2\<rparr>, interruptVector := 0x3C\<rparr>)"
  apply (simp add: ctor_zero step_def interrupt_def)
  apply (simp add: exec_def inr_def updateFlags_def rd.simps wr.simps acc_defs flag_defs
      lowBitsOf_def builtin_parity_def)
  done

text \<open>
  C3. Claimed: from the reset state, the program \<open>LXI SP,0x1000; LXI H,0xBEEF; PUSH H;
  POP D\<close> run by four steps leaves \<open>DE = 0xBEEF\<close>, \<open>SP = 0x1000\<close>, and the pushed word
  little-endian in memory: \<open>0xEF\<close> at \<open>0x0FFE\<close> and \<open>0xBE\<close> at \<open>0x0FFF\<close>. In the code
  \<open>push\<close> stores \<open>swapBytes(r16)\<close> through the host's 16-bit pointer, so the bytes land
  the other way round: \<open>0xBE\<close> at \<open>0x0FFE\<close> and \<open>0xEF\<close> at \<open>0x0FFF\<close>. \<open>DE\<close> and \<open>SP\<close>
  are as claimed, since \<open>pop\<close> swaps back.
\<close>

theorem C3_push_stores_high_byte_at_lower_address:
  "map_option (\<lambda>s. (DE s, SP s, ram s 0x0FFE, ram s 0x0FFF))
     (do { s0 \<leftarrow> load 0 [0x31, 0x00, 0x10, 0x21, 0xEF, 0xBE, 0xE5, 0xD1]
                   (cpu_ctor zero_storage m);
           s1 \<leftarrow> step pin s0; s2 \<leftarrow> step pin s1; s3 \<leftarrow> step pin s2; step pin s3 })
   = Some (0xBEEF, 0x1000, 0xBE, 0xEF)"
  apply (simp only: scenario4_load scenario4_step1 scenario4_step2 scenario4_step3
      scenario4_step4 bind.bind_lunit option.map)
  apply (simp add: ctor_zero acc_defs)
  done

text \<open>
  C4. Claimed: \<open>ADC v\<close> sets \<open>A := (A + v + c) mod 256\<close>, the carry flag iff
  \<open>A + v + c > 0xFF\<close> and the auxiliary carry iff \<open>(A & 0x0F) + (v & 0x0F) + c > 0x0F\<close>.
  The code first adds \<open>c\<close> to the 8-bit operand, which wraps, and derives both flags
  from \<open>A\<close> and that wrapped operand. The sum is as claimed; the flags are not: with
  \<open>A = 0\<close>, \<open>v = 0xFF\<close>, \<open>c = 1\<close> the sum \<open>0x100\<close> carries but the flag ends clear, and
  with \<open>A = 0\<close>, \<open>v = 0x0F\<close>, \<open>c = 1\<close> the nibble sum is 16 but the auxiliary carry ends
  clear.
\<close>

theorem C4_adc_flags_from_wrapped_operand:
  "A (add v True s) = A s + v + of_bool (getFlag carry s \<noteq> 0) \<and>
   (getFlag carry (add v True s) \<noteq> 0)
     = (uint (A s) + uint (v + of_bool (getFlag carry s \<noteq> 0)) > 255) \<and>
   (getFlag auxCarry (add v True s) \<noteq> 0)
     = (uint (A s AND 0x0F) + uint ((v + of_bool (getFlag carry s \<noteq> 0)) AND 0x0F) > 15) \<and>
   exec pin 0x88 s = Some (add (B s) True s) \<and>
   getFlag carry (setFlag carry True (cpu_ctor zero_storage m)) = 1 \<and>
   A (add 0xFF True (setFlag carry True (cpu_ctor zero_storage m))) = 0 \<and>
   getFlag carry (add 0xFF True (setFlag carry True (cpu_ctor zero_storage m))) = 0 \<and>
   A (add 0x0F True (setFlag carry True (cpu_ctor zero_storage m))) = 0x10 \<and>
   getFlag auxCarry (add 0x0F True (setFlag carry True (cpu_ctor zero_storage m))) = 0"
proof -
  have and15: "lowBitsOf x 4 = x AND 0x0F" for x :: "8 word"
    by (simp add: lowBitsOf_take_bit take_bit_eq_mask mask_eq_exp_minus_1)
  have g: "getFlag carry (setFlag carry True (cpu_ctor zero_storage m)) = 1"
    by (simp add: getFlag_setFlag)
  have a0: "A (cpu_ctor zero_storage m) = 0"
    by (simp add: ctor_zero acc_defs)
  have e: "exec pin 0x88 s = Some (add (B s) True s)"
    by (simp add: exec_def)
  show ?thesis
    by (simp add: A_add carry_add auxCarry_add and15 g a0 e) (auto simp: algebra_simps)
qed

theorem C4_adc_witness:
  "exec id 0x88 (setFlag carry True (wr refB 0xFF (cpu_ctor zero_storage (ram zero_storage))))
     = Some (add 0xFF True
         (setFlag carry True (wr refB 0xFF (cpu_ctor zero_storage (ram zero_storage))))) \<and>
   A (add 0xFF True (setFlag carry True (cpu_ctor zero_storage (ram zero_storage)))) = 0 \<and>
   getFlag carry (add 0xFF True (setFlag carry True (cpu_ctor zero_storage (ram zero_storage))))
     = 0"
  using C4_adc_flags_from_wrapped_operand
    [where v = "0xFF" and pin = id and m = "ram zero_storage"
      and s = "setFlag carry True (wr refB 0xFF (cpu_ctor zero_storage (ram zero_storage)))"]
  by (simp add: B_def high_def wr.simps setFlag_def set_flags_def)

text \<open>
  C5. Claimed: \<open>CMP r\<close> leaves \<open>A\<close> unchanged, sets Z iff \<open>A = r\<close> and sets the carry
  flag iff \<open>A < r\<close>; for \<open>r = 0\<close> the carry must end 0. The code computes
  \<open>A + twosComp(r)\<close> and inverts the carry of that addition. \<open>A\<close> and Z are as claimed,
  and so is the carry for \<open>r \<noteq> 0\<close>; but \<open>twosComp(0) = 0\<close> never carries, so for \<open>r = 0\<close>
  the inverted flag is always set, for instance with \<open>A = 5\<close>.
\<close>

theorem C5_cmp_zero_operand_sets_carry:
  "A (cmp r s) = A s \<and>
   (getFlag zero (cmp r s) \<noteq> 0) = (A s = r) \<and>
   (getFlag carry (cmp r s) \<noteq> 0) = (r = 0 \<or> A s < r) \<and>
   exec pin 0xb8 s = Some (cmp (B s) s) \<and>
   A (wr refA 5 (cpu_ctor zero_storage m)) = 5 \<and>
   getFlag carry (cmp 0 (wr refA 5 (cpu_ctor zero_storage m))) = 1"
proof -
  have "getFlag carry (cmp 0 (wr refA 5 (cpu_ctor zero_storage m))) \<noteq> 0"
    by (simp add: carry_cmp)
  then have "getFlag carry (cmp 0 (wr refA 5 (cpu_ctor zero_storage m))) = 1"
    by (simp add: getFlag_bit split: if_splits)
  then show ?thesis
    by (simp add: A_cmp zero_cmp carry_cmp exec_def)
qed

theorem C5_cmp_witness:
  "exec id 0xb8 (wr refA 5 (cpu_ctor zero_storage (ram zero_storage)))
     = Some (cmp 0 (wr refA 5 (cpu_ctor zero_storage (ram zero_storage)))) \<and>
   A (cmp 0 (wr refA 5 (cpu_ctor zero_storage (ram zero_storage)))) = 5 \<and>
   getFlag carry (cmp 0 (wr refA 5 (cpu_ctor zero_storage (ram zero_storage)))) = 1"
  using C5_cmp_zero_operand_sets_carry
    [where r = 0 and pin = id and m = "ram zero_storage"
      and s = "wr refA 5 (cpu_ctor zero_storage (ram zero_storage))"]
  by (simp add: B_def high_def wr.simps ctor_zero)

text \<open>
  C6. Claimed: \<open>DCR r\<close> sets \<open>r := (r - 1) mod 256\<close>, sets the auxiliary carry iff the
  old low nibble is nonzero, updates S, Z and P from the new value and leaves the carry
  flag alone. The code does all of that except for the auxiliary carry, which it sets
  iff the old low nibble is zero, the opposite: decrementing \<open>0x11\<close> leaves it clear.
  The subtraction kernel of the same file, \<open>sub(1)\<close>, sets it iff the nibble is nonzero.
\<close>

theorem C6_dcr_aux_carry_on_zero_nibble:
  "rd r8 (dcr r8 s) = rd r8 s - 1 \<and>
   (getFlag auxCarry (dcr r8 s) \<noteq> 0) = (rd r8 s AND 0x0F = 0) \<and>
   (getFlag sign (dcr r8 s) \<noteq> 0) = (sint (rd r8 s - 1) < 0) \<and>
   (getFlag zero (dcr r8 s) \<noteq> 0) = (rd r8 s - 1 = 0) \<and>
   (getFlag parity (dcr r8 s) \<noteq> 0) = even (popcount (unat (rd r8 s - 1))) \<and>
   getFlag carry (dcr r8 s) = getFlag carry s \<and>
   exec pin 0x05 s = Some (dcr refB s) \<and>
   (getFlag auxCarry (sub 1 False s) \<noteq> 0) = (A s AND 0x0F \<noteq> 0) \<and>
   rd refB (wr refB 0x11 (cpu_ctor zero_storage m)) = 0x11 \<and>
   rd refB (dcr refB (wr refB 0x11 (cpu_ctor zero_storage m))) = 0x10 \<and>
   getFlag auxCarry (dcr refB (wr refB 0x11 (cpu_ctor zero_storage m))) = 0"
proof -
  have "\<not> (getFlag auxCarry (dcr refB (wr refB 0x11 (cpu_ctor zero_storage m))) \<noteq> 0)"
    by (simp only: auxCarry_dcr rd_wr_same) simp
  then have "getFlag auxCarry (dcr refB (wr refB 0x11 (cpu_ctor zero_storage m))) = 0"
    by simp
  then show ?thesis
    by (simp add: rd_dcr auxCarry_dcr szp_dcr carry_dcr auxCarry_sub1 exec_def)
qed

theorem C6_dcr_witness:
  "exec id 0x05 (wr refB 0x11 (cpu_ctor zero_storage (ram zero_storage)))
     = Some (dcr refB (wr refB 0x11 (cpu_ctor zero_storage (ram zero_storage)))) \<and>
   rd refB (dcr refB (wr refB 0x11 (cpu_ctor zero_storage (ram zero_storage)))) = 0x10 \<and>
   getFlag auxCarry (dcr refB (wr refB 0x11 (cpu_ctor zero_storage (ram zero_storage)))) = 0"
  using C6_dcr_aux_carry_on_zero_nibble
    [where ?r8.0 = refB and pin = id and m = "ram zero_storage"
      and s = "wr refB 0x11 (cpu_ctor zero_storage (ram zero_storage))"]
  by simp

text \<open>
  C7. Claimed: \<open>RAL\<close> sets \<open>A := ((A << 1) | old_C) mod 256\<close>, the old carry rotating
  into bit 0, and sets the carry flag to the old bit 7. The code's case \<open>0x17\<close>, labelled
  \<open>RAL\<close>, sets the carry flag from bit 7 and then only shifts: bit 0 of the result is
  always 0 and the old carry is lost, so the instruction is not a rotate through carry.
  With \<open>A = 1\<close> and the carry set, the result is 2 where the 8080 gives 3. The carry
  flag is as claimed.
\<close>

theorem C7_ral_shifts_in_zero:
  "exec pin 0x17 s = Some (wr refA (push_bit 1 (A s)) (setFlag carry (bit (A s) 7) s)) \<and>
   A (wr refA (push_bit 1 (A s)) (setFlag carry (bit (A s) 7) s)) = push_bit 1 (A s) \<and>
   \<not> bit (A (wr refA (push_bit 1 (A s)) (setFlag carry (bit (A s) 7) s))) 0 \<and>
   (getFlag carry (wr refA (push_bit 1 (A s)) (setFlag carry (bit (A s) 7) s)) \<noteq> 0)
      = bit (A s) 7"
  by (simp add: exec_ral getFlag_setFlag bit_0)

theorem C7_ral_witness:
  "map_option (\<lambda>s. (A s, getFlag carry s))
     (exec id 0x17 (setFlag carry True (wr refA 1 (cpu_ctor zero_storage (ram zero_storage)))))
   = Some (0x02, 0)"
  using C7_ral_shifts_in_zero
    [where pin = id
      and s = "setFlag carry True (wr refA 1 (cpu_ctor zero_storage (ram zero_storage)))"]
  by (simp add: getFlag_setFlag bit_1_iff)

theorem C7_ral_drops_old_carry:
  "getFlag carry (setFlag carry True (wr refA 1 (cpu_ctor zero_storage (ram zero_storage)))) = 1 \<and>
   A (setFlag carry True (wr refA 1 (cpu_ctor zero_storage (ram zero_storage)))) = 1 \<and>
   map_option A
     (exec id 0x17 (setFlag carry True (wr refA 1 (cpu_ctor zero_storage (ram zero_storage)))))
     = Some 2 \<and>
   push_bit 1 (1 :: 8 word) OR 1 = 3"
  by (simp add: exec_ral getFlag_setFlag)

text \<open>
  C8. In every state reachable from the state after construction (in zeroed storage, over
  any memory image) by \<open>step\<close> calls, whatever the input port answers, and also by
  \<open>interrupt\<close> calls in between, the flag byte has bits 5 and 3 clear and bit 1 set.
  The only writes to the flag byte are \<open>setFlag\<close> on the five named flags and \<open>pop\<close>,
  which resets the three fixed bits after loading \<open>PSW\<close>. The witness is the state after
  \<open>POP PSW\<close> of the word \<open>0xFFFF\<close>: the flag byte is \<open>0xD7\<close>.
\<close>

theorem C8_fixed_flag_bits_invariant:
  "reachable s \<Longrightarrow> flags s AND 0x28 = 0 \<and> flags s AND 0x02 = 0x02"
proof -
  assume "reachable s"
  then have "fixed_bits (flags s)"
  proof (induction rule: reachable.induct)
    case (reachable_reset m)
    show ?case by (simp add: ctor_zero fixed_bits_def flags_def low_def)
  next
    case (reachable_step s pin s')
    from fixed_result_step [OF reachable_step.IH, of pin] reachable_step.hyps(2)
    show ?case by simp
  next
    case (reachable_interrupt s v)
    then show ?case by (simp add: interrupt_def)
  qed
  then show ?thesis by (simp add: fixed_bits_def)
qed

theorem C8_fixed_flag_bits_witness:
  "reachable after_pop_psw \<and> A after_pop_psw = 0xFF \<and> flags after_pop_psw = 0xD7 \<and>
   flags after_pop_psw AND 0x28 = 0 \<and> flags after_pop_psw AND 0x02 = 0x02"
proof -
  have r: "reachable after_pop_psw"
    by (rule reachable_step [OF reachable_step [OF reachable_reset pop_psw_step1] pop_psw_step2])
  have "A after_pop_psw = 0xFF \<and> flags after_pop_psw = 0xD7"
    by (simp add: after_pop_psw_def acc_defs)
  with r C8_fixed_flag_bits_invariant [OF r] show ?thesis by simp
qed

text \<open>
  C9. Claimed: right after construction every register is 0 except the flag byte
  \<open>0x02\<close>, \<open>SP\<close> and \<open>PC\<close> are 0, and \<open>ime\<close>, \<open>halted\<close> and \<open>irq_pending\<close> are false.
  The constructor only sets bit 1 of the flag byte; \<open>halted\<close> and the four register
  pairs have no initialiser, unlike \<open>PC\<close>, \<open>interruptsEnabled\<close> and
  \<open>interruptPending\<close>. In zeroed storage the claim holds (\<open>ctor_zero\<close>); in storage
  that held other bytes, \<open>halted\<close>, \<open>B\<close> and the flag byte keep them.
\<close>

theorem C9_constructor_keeps_storage_contents:
  "halted (cpu_ctor (zero_storage\<lparr>halted := True\<rparr>) m) \<and>
   B (cpu_ctor (zero_storage\<lparr>BC_reg := \<lparr>pair0 = 7, pair1 = 0\<rparr>\<rparr>) m) = 7 \<and>
   flags (cpu_ctor (zero_storage\<lparr>PSW_reg := \<lparr>pair0 = 0, pair1 = 0xFF\<rparr>\<rparr>) m) = 0xFF"
  by (simp add: cpu_ctor_def zero_storage_def acc_defs flag_defs)

text \<open>
  C10. Claimed: \<open>LHLD a16\<close> (opcode \<open>0x2A\<close>) assigns to the pair \<open>HL\<close> the zero-extended
  byte at the fetched address and never reads the byte after it; \<open>SHLD a16\<close> (opcode
  \<open>0x22\<close>) writes one byte at the fetched address and leaves the rest of memory as it
  was. Both are stated for a state whose program counter, standing at the operand, is
  not \<open>0xFFFF\<close> (the operand fetch would leave the 64 KiB array). The byte \<open>SHLD\<close> writes
  is the low byte of the 16-bit \<open>HL\<close>. Changing the byte at address + 1, when it is not
  one of the two operand bytes, changes nothing in what \<open>LHLD\<close> loads.
\<close>

theorem C10_lhld_shld_move_one_byte:
  "PC s \<noteq> 0xFFFF \<Longrightarrow>
   (let a = ucast (ram s (PC s)) OR push_bit 8 (ucast (ram s (PC s + 1)));
        s1 = s\<lparr>PC := PC s + 2\<rparr>
    in get16 s = Some (a, s1) \<and>
       exec pin 0x2a s = Some (set_HL (ucast (ram s a)) s1) \<and>
       HL (set_HL (ucast (ram s a)) s1) = ucast (ram s a) \<and>
       H (set_HL (ucast (ram s a)) s1) = ram s a \<and>
       L (set_HL (ucast (ram s a)) s1) = 0 \<and>
       (\<forall>v. a + 1 \<noteq> PC s \<and> a + 1 \<noteq> PC s + 1 \<longrightarrow>
            exec pin 0x2a (s\<lparr>ram := (ram s)(a + 1 := v)\<rparr>)
              = Some (set_HL (ucast (ram s a)) (s1\<lparr>ram := (ram s)(a + 1 := v)\<rparr>))) \<and>
       exec pin 0x22 s = Some (s1\<lparr>ram := (ram s)(a := ucast (HL s))\<rparr>))"
proof -
  assume pc: "PC s \<noteq> 0xFFFF"
  define a where "a = (ucast (ram s (PC s)) OR push_bit 8 (ucast (ram s (PC s + 1))) :: 16 word)"
  define s1 where "s1 = s\<lparr>PC := PC s + 2\<rparr>"
  have g: "get16 s = Some (a, s1)"
    using pc by (simp add: get16_Some a_def s1_def)
  have l: "exec pin 0x2a s = Some (set_HL (ucast (ram s a)) s1)"
    using exec_lhld [OF g] by (simp add: s1_def)
  have st: "exec pin 0x22 s = Some (s1\<lparr>ram := (ram s)(a := ucast (HL s))\<rparr>)"
    using exec_shld [OF g] by (simp add: s1_def HL_def)
  have n: "exec pin 0x2a (s\<lparr>ram := (ram s)(a + 1 := v)\<rparr>)
              = Some (set_HL (ucast (ram s a)) (s1\<lparr>ram := (ram s)(a + 1 := v)\<rparr>))"
    if "a + 1 \<noteq> PC s \<and> a + 1 \<noteq> PC s + 1" for v
  proof -
    define m' where "m' = (ram s)(a + 1 := v)"
    have r: "m' (PC s) = ram s (PC s)" "m' (PC s + 1) = ram s (PC s + 1)" "m' a = ram s a"
      using that by (auto simp: m'_def)
    have "get16 (s\<lparr>ram := m'\<rparr>) = Some (a, s1\<lparr>ram := m'\<rparr>)"
      using pc get16_Some [of "s\<lparr>ram := m'\<rparr>"] by (simp add: r a_def s1_def)
    from exec_lhld [OF this] show ?thesis
      by (simp add: r s1_def m'_def [symmetric])
  qed
  show ?thesis
    unfolding Let_def a_def [symmetric] s1_def [symmetric]
    using g l st n by simp
qed

theorem C10_lhld_shld_witness:
  "PC lhld_state \<noteq> 0xFFFF \<and>
   map_option (\<lambda>s. (HL s, PC s)) (exec id 0x2a lhld_state) = Some (0x00FF, 3) \<and>
   map_option (\<lambda>s. (ram s 0x025b, ram s 0x025c, PC s)) (exec id 0x22 lhld_state) = Some (0x34, 0x03, 3)"
  using C10_lhld_shld_move_one_byte [of lhld_state id]
  by (simp add: lhld_state_def ctor_zero Let_def HL_def acc_defs ucast_16_8)

end
